theory Spec2Isabelle
  imports Main "HOL-Library.Sublist"
begin

section \<open>Data model\<close>

text \<open>
  Values read by \<^verbatim>\<open>json.loads\<close> and the dictionaries built by the scraper. An object
  holds the items of the Python dict, in insertion order. No function below reads a
  number, so a float is kept as its text.
\<close>

datatype json =
    JNull
  | JBool bool
  | JInt int
  | JFloat string
  | JString string
  | JArray "json list"
  | JObject "(string \<times> json) list"

text \<open>
  The text \<^verbatim>\<open>json.dumps(data, indent=n)\<close>, kept symbolic, and the initial text
  \<^verbatim>\<open>"{}"\<close> of \<^verbatim>\<open>elements_json_str\<close> (app.py, line 271).
\<close>

datatype json_text =
    Empty_object_text
  | Json_dumps "json list" nat

text \<open>
  A cell of a DataFrame built from a list of dicts: the value under the column's key, or
  \<^verbatim>\<open>NaN\<close> (here \<open>None\<close>) where the dict has no such key.
\<close>

type_synonym cell = "json option"

text \<open>
  One row of the test-case DataFrame, with its four columns
  \<^verbatim>\<open>'Test Case ID', 'Test Scenario', 'Steps to Execute', 'Expected Result'\<close>.
  A DataFrame is the list of its rows; \<^verbatim>\<open>df.empty\<close> is \<open>df = []\<close>. The frame
  \<^verbatim>\<open>pd.DataFrame()\<close>, which has no columns either, is \<open>[]\<close> as well.
\<close>

record test_case =
  tc_id :: cell
  tc_scenario :: cell
  tc_steps :: cell
  tc_expected :: cell

text \<open>One row of the scripts DataFrame: \<^verbatim>\<open>'Test Case ID', 'Python Selenium Code'\<close>.\<close>

record script_row =
  script_tc_id :: cell
  script_code :: string

text \<open>
  The lines appended to \<^verbatim>\<open>status_updates\<close> in app.py, one constructor for each
  f-string, with the values it interpolates:
  \<^item> \<open>Invalid_url\<close> line 293, \<open>Processing_started\<close> line 298, \<open>Scraping url\<close> line 302,
  \<^item> \<open>Extraction_failed\<close> line 308, \<open>Extracted count path\<close> line 315,
  \<^item> \<open>Truncation_note max\<close> line 322, \<open>Generating_test_cases n\<close> line 328,
  \<^item> \<open>Generation_warning\<close> line 338, \<open>Stopping\<close> line 349,
  \<^item> \<open>Generated_test_cases count path\<close> line 356, \<open>Generating_scripts\<close> line 361,
  \<^item> \<open>No_valid_test_cases\<close> line 369, \<open>Mapping_test_cases count\<close> line 372,
  \<^item> \<open>Generating_script_for tc_id\<close> line 377, \<open>Generated_scripts count path\<close> line 394,
  \<^item> \<open>Skipping_script_generation\<close> line 398, \<open>Processing_finished\<close> line 402,
  \<^item> \<open>Critical_error text\<close> line 407.
\<close>

datatype status_line =
    Invalid_url
  | Processing_started
  | Scraping string
  | Extraction_failed
  | Extracted nat string
  | Truncation_note nat
  | Generating_test_cases int
  | Generation_warning
  | Stopping
  | Generated_test_cases nat string
  | Generating_scripts
  | No_valid_test_cases
  | Mapping_test_cases nat
  | Generating_script_for cell
  | Generated_scripts nat string
  | Skipping_script_generation
  | Processing_finished
  | Critical_error string

text \<open>
  The local state of \<^verbatim>\<open>process_website\<close> (app.py, lines 271 to 277). The tuple that
  \<^verbatim>\<open>current_outputs()\<close> packages is a copy of it, so a snapshot is a value of the
  same record; its seventh component is the text \<open>status_text\<close> of the lines.
\<close>

record snapshot =
  elements_json_str :: json_text
  test_cases_df :: "test_case list"
  scripts_df :: "script_row list"
  elements_filepath :: "string option"
  test_cases_filepath :: "string option"
  scripts_filepath :: "string option"
  status_updates :: "status_line list"

text \<open>\<^verbatim>\<open>"\n".join(lines)\<close>\<close>

fun join_lines :: "string list \<Rightarrow> string" where
  "join_lines [] = []"
| "join_lines [l] = l"
| "join_lines (l # m # ls) = l @ CHR 0x0A # join_lines (m # ls)"

definition status_text :: "(status_line \<Rightarrow> string) \<Rightarrow> snapshot \<Rightarrow> string" where
  "status_text render st = join_lines (map render (status_updates st))"

text \<open>
  What an observer of a run sees, in order: the snapshots the generator yields, and the
  calls it makes to the scraper, the two generators and the three exporters, each
  with its arguments.
\<close>

datatype event =
    Yield snapshot
  | Call_extract_elements string
  | Call_save_elements_to_json "json list" string
  | Call_generate_test_cases json_text string int
  | Call_save_test_cases_to_excel "test_case list" string
  | Call_generate_selenium_script test_case json_text string
  | Call_save_scripts_to_excel "script_row list" string

fun snapshots :: "event list \<Rightarrow> snapshot list" where
  "snapshots [] = []"
| "snapshots (Yield s # evs) = s # snapshots evs"
| "snapshots (_ # evs) = snapshots evs"

fun is_script_call :: "event \<Rightarrow> bool" where
  "is_script_call (Call_generate_selenium_script _ _ _) = True"
| "is_script_call _ = False"

fun is_save_test_cases_call :: "event \<Rightarrow> bool" where
  "is_save_test_cases_call (Call_save_test_cases_to_excel _ _) = True"
| "is_save_test_cases_call _ = False"

fun is_collaborator_call :: "event \<Rightarrow> bool" where
  "is_collaborator_call (Yield _) = False"
| "is_collaborator_call _ = True"

text \<open>The element payloads handed to the two generators, in call order.\<close>

fun ai_payloads :: "event list \<Rightarrow> json_text list" where
  "ai_payloads [] = []"
| "ai_payloads (Call_generate_test_cases p _ _ # evs) = p # ai_payloads evs"
| "ai_payloads (Call_generate_selenium_script _ p _ # evs) = p # ai_payloads evs"
| "ai_payloads (_ # evs) = ai_payloads evs"

text \<open>The test cases handed to \<^verbatim>\<open>generate_selenium_script\<close>, in call order.\<close>

fun script_calls :: "event list \<Rightarrow> test_case list" where
  "script_calls [] = []"
| "script_calls (Call_generate_selenium_script tc _ _ # evs) = tc # script_calls evs"
| "script_calls (_ # evs) = script_calls evs"

section \<open>The environment of a run\<close>

text \<open>
  What the file system does to one of the \<^verbatim>\<open>save_*\<close> functions of utils.py:
  \<^verbatim>\<open>os.makedirs\<close>, which is called outside the \<^verbatim>\<open>try\<close>, raises; or the write
  inside the \<^verbatim>\<open>try\<close> raises; or the file is written.
\<close>

datatype fs_outcome =
    Makedirs_raises string
  | Write_raises
  | Write_succeeds

text \<open>
  What \<^verbatim>\<open>client.chat.completions.create\<close> and the reading of the reply do inside the
  \<^verbatim>\<open>try\<close> of genai_handler.py: one of the three exception classes the handlers
  tell apart, with \<^verbatim>\<open>str(e)\<close>, or the content of the first choice.
  \<^verbatim>\<open>RateLimitError\<close> is a subclass of \<^verbatim>\<open>APIError\<close> and is caught first.
\<close>

datatype chat_outcome =
    Rate_limit_error string
  | Api_error string
  | Other_exception string
  | Message_content string

text \<open>
  Everything outside the repository that a run depends on. \<open>extract_elements\<close> is the
  scraper: \<open>Inr\<close> the list it returns (empty when it caught a fault), \<open>Inl\<close> an
  exception raised before its \<^verbatim>\<open>try\<close>. \<open>client\<close> is False when the module-level
  client is \<^verbatim>\<open>None\<close>. \<open>chat_script\<close> also takes the position of the call in the
  loop, since equal prompts may get different replies. \<open>json_loads\<close> is
  \<^verbatim>\<open>json.loads\<close>, \<open>None\<close> for \<^verbatim>\<open>JSONDecodeError\<close>; \<open>py_strip\<close> is
  \<^verbatim>\<open>str.strip\<close>.
\<close>

record env =
  extract_elements :: "string \<Rightarrow> string + json list"
  fs_elements :: fs_outcome
  fs_test_cases :: fs_outcome
  fs_scripts :: fs_outcome
  client :: bool
  chat_test_cases :: "json_text \<Rightarrow> string \<Rightarrow> int \<Rightarrow> chat_outcome"
  chat_script :: "nat \<Rightarrow> test_case \<Rightarrow> json_text \<Rightarrow> string \<Rightarrow> chat_outcome"
  json_loads :: "string \<Rightarrow> json option"
  py_strip :: "string \<Rightarrow> string"

section \<open>utils.py\<close>

definition OUTPUT_DIR :: string where
  "OUTPUT_DIR = ''outputs''"

text \<open>\<^verbatim>\<open>os.path.join(a, b)\<close> for a relative \<open>b\<close>, and \<^verbatim>\<open>os.path.basename\<close> (POSIX).\<close>

definition path_join :: "string \<Rightarrow> string \<Rightarrow> string" where
  "path_join a b = a @ CHR ''/'' # b"

definition basename :: "string \<Rightarrow> string" where
  "basename p = rev (takeWhile (\<lambda>c. c \<noteq> CHR ''/'') (rev p))"

text \<open>
  The three exporters share one shape: \<^verbatim>\<open>os.makedirs\<close> before the \<^verbatim>\<open>try\<close>, the
  write inside it, \<^verbatim>\<open>return filepath\<close> on success and \<^verbatim>\<open>return ""\<close> in the handler.
  \<open>Inl\<close> is an exception that leaves the function.
\<close>

definition save_elements_to_json :: "fs_outcome \<Rightarrow> json list \<Rightarrow> string \<Rightarrow> string + string" where
  "save_elements_to_json fs elements filename =
     (case fs of
        Makedirs_raises e \<Rightarrow> Inl e
      | Write_raises \<Rightarrow> Inr ''''
      | Write_succeeds \<Rightarrow> Inr (path_join OUTPUT_DIR filename))"

definition save_test_cases_to_excel ::
  "fs_outcome \<Rightarrow> test_case list \<Rightarrow> string \<Rightarrow> string + string" where
  "save_test_cases_to_excel fs df filename =
     (case fs of
        Makedirs_raises e \<Rightarrow> Inl e
      | Write_raises \<Rightarrow> Inr ''''
      | Write_succeeds \<Rightarrow> Inr (path_join OUTPUT_DIR filename))"

definition save_scripts_to_excel ::
  "fs_outcome \<Rightarrow> script_row list \<Rightarrow> string \<Rightarrow> string + string" where
  "save_scripts_to_excel fs scripts_data filename =
     (case fs of
        Makedirs_raises e \<Rightarrow> Inl e
      | Write_raises \<Rightarrow> Inr ''''
      | Write_succeeds \<Rightarrow> Inr (path_join OUTPUT_DIR filename))"

section \<open>genai_handler.py\<close>

definition required_keys :: "string list" where
  "required_keys = [''Test Case ID'', ''Test Scenario'', ''Steps to Execute'', ''Expected Result'']"

fun is_dict :: "json \<Rightarrow> bool" where
  "is_dict (JObject _) = True"
| "is_dict _ = False"

text \<open>\<^verbatim>\<open>k in d\<close> and \<^verbatim>\<open>d[k]\<close> for a dict \<open>d\<close>; a lookup of a missing key gives \<open>None\<close>.\<close>

fun dict_get :: "json \<Rightarrow> string \<Rightarrow> json option" where
  "dict_get (JObject kvs) k = map_of kvs k"
| "dict_get _ k = None"

definition has_key :: "json \<Rightarrow> string \<Rightarrow> bool" where
  "has_key d k = (dict_get d k \<noteq> None)"

text \<open>
  \<^verbatim>\<open>parse_ai_test_cases\<close> (lines 25 to 42): the parsed list when it is a list of dicts,
  non-empty, whose first dict has the four keys; \<^verbatim>\<open>[]\<close> on \<^verbatim>\<open>JSONDecodeError\<close> and
  on every other shape.
\<close>

definition parse_ai_test_cases :: "(string \<Rightarrow> json option) \<Rightarrow> string \<Rightarrow> json list" where
  "parse_ai_test_cases loads response_content =
     (case loads response_content of
        None \<Rightarrow> []
      | Some parsed_data \<Rightarrow>
          (case parsed_data of
             JArray items \<Rightarrow>
               (if list_all is_dict items then
                  (case items of
                     [] \<Rightarrow> []
                   | first # _ \<Rightarrow>
                       if list_all (has_key first) required_keys then items else [])
                else [])
           | _ \<Rightarrow> []))"

text \<open>
  \<^verbatim>\<open>pd.DataFrame(test_cases_list)\<close> restricted to the four columns (lines 111 to 116):
  one row for each dict, a missing key giving \<^verbatim>\<open>NaN\<close>, every other key dropped.
\<close>

definition row_of_dict :: "json \<Rightarrow> test_case" where
  "row_of_dict d =
     \<lparr>tc_id = dict_get d ''Test Case ID'',
      tc_scenario = dict_get d ''Test Scenario'',
      tc_steps = dict_get d ''Steps to Execute'',
      tc_expected = dict_get d ''Expected Result''\<rparr>"

definition data_frame :: "json list \<Rightarrow> test_case list" where
  "data_frame test_cases_list = map row_of_dict test_cases_list"

text \<open>The one-row frames of lines 108, 123, 126 and 129.\<close>

definition error_row :: "string \<Rightarrow> string \<Rightarrow> string \<Rightarrow> test_case" where
  "error_row ident scenario steps =
     \<lparr>tc_id = Some (JString ident),
      tc_scenario = Some (JString scenario),
      tc_steps = Some (JString steps),
      tc_expected = Some (JString ''N/A'')\<rparr>"

text \<open>\<^verbatim>\<open>generate_test_cases\<close> (lines 46 to 129).\<close>

definition generate_test_cases :: "env \<Rightarrow> json_text \<Rightarrow> string \<Rightarrow> int \<Rightarrow> test_case list" where
  "generate_test_cases e elements_json url num_cases =
     (if \<not> client e then []
      else
        (case chat_test_cases e elements_json url num_cases of
           Message_content content \<Rightarrow>
             (let response_content = py_strip e content;
                  test_cases_list = parse_ai_test_cases (json_loads e) response_content
              in if test_cases_list = []
                 then [error_row ''PARSE_ERROR'' ''Failed to parse AI response'' response_content]
                 else data_frame test_cases_list)
         | Rate_limit_error msg \<Rightarrow> [error_row ''API_ERROR'' ''Rate Limit Reached'' msg]
         | Api_error msg \<Rightarrow> [error_row ''API_ERROR'' ''API Communication Issue'' msg]
         | Other_exception msg \<Rightarrow> [error_row ''ERROR'' ''Unexpected Error'' msg]))"

text \<open>\<^verbatim>\<open>generate_selenium_script\<close> (lines 133 to 212).\<close>

definition generate_selenium_script ::
  "env \<Rightarrow> nat \<Rightarrow> test_case \<Rightarrow> json_text \<Rightarrow> string \<Rightarrow> string" where
  "generate_selenium_script e i test_case elements_json url =
     (if \<not> client e then ''Error: GenAI client not initialized.''
      else
        (case chat_script e i test_case elements_json url of
           Message_content content \<Rightarrow>
             (let code0 = py_strip e content;
                  code1 = (if prefix ''```python'' code0
                           then py_strip e (drop (length ''```python'') code0) else code0);
                  code2 = (if suffix ''```'' code1
                           then py_strip e (take (length code1 - length ''```'') code1) else code1)
              in code2)
         | Rate_limit_error msg \<Rightarrow> ''# Error: API Rate Limit Reached'' @ CHR 0x0A # ''# '' @ msg
         | Api_error msg \<Rightarrow> ''# Error: API Communication Issue'' @ CHR 0x0A # ''# '' @ msg
         | Other_exception msg \<Rightarrow>
             ''# Error: Unexpected error during script generation'' @ CHR 0x0A # ''# '' @ msg))"

section \<open>app.py: process_website\<close>

definition initial_state :: snapshot where
  "initial_state =
     \<lparr>elements_json_str = Empty_object_text,
      test_cases_df = [],
      scripts_df = [],
      elements_filepath = None,
      test_cases_filepath = None,
      scripts_filepath = None,
      status_updates = []\<rparr>"

text \<open>\<^verbatim>\<open>status_updates.append(line)\<close>\<close>

definition status_append :: "status_line \<Rightarrow> snapshot \<Rightarrow> snapshot" where
  "status_append line st = st\<lparr>status_updates := status_updates st @ [line]\<rparr>"

text \<open>Line 292: \<^verbatim>\<open>not url or not url.startswith(('http://', 'https://'))\<close> is its negation.\<close>

definition url_accepted :: "string \<Rightarrow> bool" where
  "url_accepted url = (url \<noteq> [] \<and> (prefix ''http://'' url \<or> prefix ''https://'' url))"

text \<open>\<^verbatim>\<open>os.path.basename(url).split('.')[0]\<close>\<close>

definition url_stem :: "string \<Rightarrow> string" where
  "url_stem url = takeWhile (\<lambda>c. c \<noteq> CHR ''.'') (basename url)"

text \<open>
  The file name handed to an exporter:
  \<^verbatim>\<open>os.path.basename(os.path.join(OUTPUT_DIR, f"{pre}{stem}{post}"))\<close>.
\<close>

definition artifact_filename :: "string \<Rightarrow> string \<Rightarrow> string \<Rightarrow> string" where
  "artifact_filename pre url post = basename (path_join OUTPUT_DIR (pre @ url_stem url @ post))"

text \<open>The membership tests of lines 335 and 366, and of line 348.\<close>

definition is_error_id :: "cell \<Rightarrow> bool" where
  "is_error_id c =
     (c = Some (JString ''PARSE_ERROR'') \<or> c = Some (JString ''API_ERROR'')
      \<or> c = Some (JString ''ERROR''))"

definition is_parse_error_id :: "cell \<Rightarrow> bool" where
  "is_parse_error_id c = (c = Some (JString ''PARSE_ERROR''))"

text \<open>
  Lines 405 to 408: the handler of the \<^verbatim>\<open>try\<close> that wraps the three tasks. An
  exception that leaves a collaborator ends the run with one more line and one more
  snapshot.
\<close>

definition critical_error :: "string \<Rightarrow> snapshot \<Rightarrow> event list" where
  "critical_error msg st = [Yield (status_append (Critical_error msg) st)]"

text \<open>
  The body of the \<^verbatim>\<open>try\<close> is modelled task by task. Each task gives the events it
  produces and, unless the generator has returned in it (a \<^verbatim>\<open>return\<close>, or the handler
  after an exception), what the next task starts from.
\<close>

text \<open>
  Task 1 (lines 297 to 325) gives the payload \<^verbatim>\<open>elements_json_str_for_ai\<close> and the
  state.
\<close>

definition max_elements_for_ai :: nat where
  "max_elements_for_ai = 100"

definition task1 ::
  "env \<Rightarrow> string \<Rightarrow> snapshot \<Rightarrow> event list \<times> (json_text \<times> snapshot) option" where
  "task1 e url st0 =
     (let st1 = status_append Processing_started st0;
          st2 = status_append (Scraping url) st1;
          evs = [Yield st1, Yield st2, Call_extract_elements url]
      in case extract_elements e url of
           Inl msg \<Rightarrow> (evs @ critical_error msg st2, None)
         | Inr elements_data \<Rightarrow>
             if elements_data = [] then
               (evs @ [Yield (status_append Extraction_failed st2)], None)
             else
               (let st3 = st2\<lparr>elements_json_str := Json_dumps elements_data 4\<rparr>;
                    filename = artifact_filename ''elements_'' url ''.json'';
                    evs = evs @ [Call_save_elements_to_json elements_data filename]
                in case save_elements_to_json (fs_elements e) elements_data filename of
                     Inl msg \<Rightarrow> (evs @ critical_error msg st3, None)
                   | Inr path \<Rightarrow>
                       (let st4 = status_append (Extracted (length elements_data) path)
                                    (st3\<lparr>elements_filepath := Some path\<rparr>);
                            evs = evs @ [Yield st4]
                        in if length elements_data > max_elements_for_ai then
                             (let ai = Json_dumps (take max_elements_for_ai elements_data) 2;
                                  st5 = status_append (Truncation_note max_elements_for_ai) st4
                              in (evs @ [Yield st5], Some (ai, st5)))
                           else (evs, Some (Json_dumps elements_data 2, st4)))))"

text \<open>Lines 345 to 351: the snapshot after a failed generation, and the critical stop.\<close>

definition after_failed_generation :: "snapshot \<Rightarrow> event list \<times> (bool \<times> snapshot) option" where
  "after_failed_generation st =
     (if test_cases_df st = [] \<or> list_ex (\<lambda>tc. is_parse_error_id (tc_id tc)) (test_cases_df st)
      then ([Yield st, Yield (status_append Stopping st)], None)
      else ([Yield st], Some (True, st)))"

text \<open>Task 2 (lines 327 to 357) gives \<^verbatim>\<open>generation_failed\<close> and the state.\<close>

definition task2 ::
  "env \<Rightarrow> string \<Rightarrow> int \<Rightarrow> json_text \<Rightarrow> snapshot \<Rightarrow> event list \<times> (bool \<times> snapshot) option" where
  "task2 e url num_test_cases ai st0 =
     (let st1 = status_append (Generating_test_cases num_test_cases) st0;
          evs = [Yield st1, Call_generate_test_cases ai url num_test_cases];
          generated_tc_df = generate_test_cases e ai url num_test_cases;
          generation_failed =
            (generated_tc_df = [] \<or> list_ex (\<lambda>tc. is_error_id (tc_id tc)) generated_tc_df)
      in if generation_failed then
           (let st2 = status_append Generation_warning st1
            in if generated_tc_df \<noteq> [] then
                 (let st3 = st2\<lparr>test_cases_df := generated_tc_df\<rparr>;
                      filename = artifact_filename ''test_cases_'' url ''_error.xlsx'';
                      evs = evs @ [Call_save_test_cases_to_excel generated_tc_df filename]
                  in case save_test_cases_to_excel (fs_test_cases e) generated_tc_df filename of
                       Inl msg \<Rightarrow> (evs @ critical_error msg st3, None)
                     | Inr path \<Rightarrow>
                         (let (evs', next) =
                                after_failed_generation (st3\<lparr>test_cases_filepath := Some path\<rparr>)
                          in (evs @ evs', next)))
               else
                 (let (evs', next) = after_failed_generation (st2\<lparr>test_cases_filepath := None\<rparr>)
                  in (evs @ evs', next)))
         else
           (let st2 = st1\<lparr>test_cases_df := generated_tc_df\<rparr>;
                filename = artifact_filename ''test_cases_'' url ''.xlsx'';
                evs = evs @ [Call_save_test_cases_to_excel generated_tc_df filename]
            in case save_test_cases_to_excel (fs_test_cases e) generated_tc_df filename of
                 Inl msg \<Rightarrow> (evs @ critical_error msg st2, None)
               | Inr path \<Rightarrow>
                   (let st3 = status_append (Generated_test_cases (length generated_tc_df) path)
                                (st2\<lparr>test_cases_filepath := Some path\<rparr>)
                    in (evs @ [Yield st3], Some (False, st3)))))"

text \<open>
  The loop of lines 375 to 385 over the valid rows: the events it produces, the state
  after it and \<^verbatim>\<open>scripts_data\<close>. \<open>i\<close> counts the calls made so far.
\<close>

fun script_loop ::
  "env \<Rightarrow> json_text \<Rightarrow> string \<Rightarrow> nat \<Rightarrow> test_case list \<Rightarrow> snapshot \<Rightarrow> script_row list
     \<Rightarrow> event list \<times> snapshot \<times> script_row list" where
  "script_loop e ai url i [] st scripts_data = ([], st, scripts_data)"
| "script_loop e ai url i (test_case # rest) st scripts_data =
     (let st1 = status_append (Generating_script_for (tc_id test_case)) st;
          code = generate_selenium_script e i test_case ai url;
          row = \<lparr>script_tc_id = tc_id test_case, script_code = code\<rparr>;
          (evs, st2, scripts_data2) = script_loop e ai url (Suc i) rest st1 (scripts_data @ [row])
      in (Yield st1 # Call_generate_selenium_script test_case ai url # evs, st2, scripts_data2))"

text \<open>Task 3 (lines 360 to 399) gives the state.\<close>

definition task3 ::
  "env \<Rightarrow> string \<Rightarrow> json_text \<Rightarrow> bool \<Rightarrow> snapshot \<Rightarrow> event list \<times> snapshot option" where
  "task3 e url ai generation_failed st0 =
     (let st1 = status_append Generating_scripts st0;
          valid_test_cases_df = filter (\<lambda>tc. \<not> is_error_id (tc_id tc)) (test_cases_df st1)
      in if valid_test_cases_df = [] \<and> \<not> generation_failed then
           (let st2 = status_append No_valid_test_cases st1
            in ([Yield st1, Yield st2], Some st2))
         else if valid_test_cases_df \<noteq> [] then
           (let st2 = status_append (Mapping_test_cases (length valid_test_cases_df)) st1;
                (loop_evs, st3, scripts_data) = script_loop e ai url 0 valid_test_cases_df st2 [];
                st4 = st3\<lparr>scripts_df := scripts_data\<rparr>;
                filename = artifact_filename ''test_scripts_'' url ''.xlsx'';
                evs = [Yield st1, Yield st2] @ loop_evs
                      @ [Call_save_scripts_to_excel scripts_data filename]
            in case save_scripts_to_excel (fs_scripts e) scripts_data filename of
                 Inl msg \<Rightarrow> (evs @ critical_error msg st4, None)
               | Inr path \<Rightarrow>
                   (let st5 = status_append (Generated_scripts (length scripts_data) path)
                                (st4\<lparr>scripts_filepath := Some path\<rparr>)
                    in (evs @ [Yield st5], Some st5)))
         else
           (let st2 = status_append Skipping_script_generation st1
            in ([Yield st1, Yield st2], Some st2)))"

text \<open>
  \<^verbatim>\<open>process_website\<close> (lines 265 to 408): the events of one run, in order. The last
  two lines of the \<^verbatim>\<open>try\<close> (402 and 403) append the completion line and yield.
\<close>

definition process_website :: "env \<Rightarrow> string \<Rightarrow> int \<Rightarrow> event list" where
  "process_website e url num_test_cases =
     (if \<not> url_accepted url then [Yield (status_append Invalid_url initial_state)]
      else
        (case task1 e url initial_state of
           (evs1, None) \<Rightarrow> evs1
         | (evs1, Some (ai, st1)) \<Rightarrow>
             (case task2 e url num_test_cases ai st1 of
                (evs2, None) \<Rightarrow> evs1 @ evs2
              | (evs2, Some (generation_failed, st2)) \<Rightarrow>
                  (case task3 e url ai generation_failed st2 of
                     (evs3, None) \<Rightarrow> evs1 @ evs2 @ evs3
                   | (evs3, Some st3) \<Rightarrow>
                       evs1 @ evs2 @ evs3 @ [Yield (status_append Processing_finished st3)]))))"

section \<open>The response validator as the specification words it\<close>


section \<open>Vocabulary for the statements\<close>

text \<open>An exporter does not raise: the output directory exists or can be created.\<close>

fun makedirs_ok :: "fs_outcome \<Rightarrow> bool" where
  "makedirs_ok (Makedirs_raises _) = False"
| "makedirs_ok _ = True"

text \<open>What an exporter that does not raise returns: the path, or the empty string.\<close>

definition saved_path :: "fs_outcome \<Rightarrow> string \<Rightarrow> string" where
  "saved_path fs filename =
     (case fs of Write_succeeds \<Rightarrow> path_join OUTPUT_DIR filename | _ \<Rightarrow> [])"

text \<open>The value of \<^verbatim>\<open>elements_json_str_for_ai\<close> after lines 318 to 325.\<close>

definition elements_json_str_for_ai :: "json list \<Rightarrow> json_text" where
  "elements_json_str_for_ai elements_data =
     (if length elements_data > max_elements_for_ai
      then Json_dumps (take max_elements_for_ai elements_data) 2
      else Json_dumps elements_data 2)"

text \<open>
  The run reaches task 2: the url passes the check of line 292, the scraper returns the
  non-empty list \<open>elements_data\<close>, and \<^verbatim>\<open>save_elements_to_json\<close> does not raise.
\<close>

definition extraction_succeeds :: "env \<Rightarrow> string \<Rightarrow> json list \<Rightarrow> bool" where
  "extraction_succeeds e url elements_data =
     (url_accepted url \<and> extract_elements e url = Inr elements_data \<and> elements_data \<noteq> []
      \<and> makedirs_ok (fs_elements e))"

text \<open>
  On a table: the filter of line 366, the test of line 348 for a \<^verbatim>\<open>PARSE_ERROR\<close>
  row and the test of line 335 for a row with a reserved id. A table has only soft errors
  when every row of it is an \<^verbatim>\<open>API_ERROR\<close> or \<^verbatim>\<open>ERROR\<close> row.
\<close>

definition valid_rows :: "test_case list \<Rightarrow> test_case list" where
  "valid_rows df = filter (\<lambda>tc. \<not> is_error_id (tc_id tc)) df"

definition has_parse_error :: "test_case list \<Rightarrow> bool" where
  "has_parse_error df = list_ex (\<lambda>tc. is_parse_error_id (tc_id tc)) df"

definition has_error_row :: "test_case list \<Rightarrow> bool" where
  "has_error_row df = list_ex (\<lambda>tc. is_error_id (tc_id tc)) df"



fun is_truncation_note :: "status_line \<Rightarrow> bool" where
  "is_truncation_note (Truncation_note _) = True"
| "is_truncation_note _ = False"


section \<open>The script loop as the specification words it\<close>

text \<open>
  Section 4.1 of the specification, stage 3: for each valid case in table order, a
  starting line is logged and a snapshot emitted, then the script generator is called;
  the scripts are collected apart from the state. \<open>progress_state st cases k\<close> is the
  state when the script of case \<open>k\<close> is about to be requested, and
  \<open>accumulated_scripts\<close> the rows collected, \<open>i\<close> being the number of the first call.
\<close>

definition progress_state :: "snapshot \<Rightarrow> test_case list \<Rightarrow> nat \<Rightarrow> snapshot" where
  "progress_state st cases k =
     st\<lparr>status_updates :=
          status_updates st @ map (\<lambda>tc. Generating_script_for (tc_id tc)) (take (Suc k) cases)\<rparr>"

definition loop_events :: "json_text \<Rightarrow> string \<Rightarrow> snapshot \<Rightarrow> test_case list \<Rightarrow> event list" where
  "loop_events ai url st cases =
     concat (map (\<lambda>k. [Yield (progress_state st cases k),
                        Call_generate_selenium_script (cases ! k) ai url])
                 [0 ..< length cases])"

definition accumulated_scripts ::
  "env \<Rightarrow> json_text \<Rightarrow> string \<Rightarrow> nat \<Rightarrow> test_case list \<Rightarrow> script_row list" where
  "accumulated_scripts e ai url i cases =
     map (\<lambda>(k, tc). \<lparr>script_tc_id = tc_id tc,
                      script_code = generate_selenium_script e k tc ai url\<rparr>)
         (enumerate i cases)"

section \<open>The states and events of a run that goes on\<close>

text \<open>
  Names for the states and event lists that the lemmas on the three tasks compute.
  Task 1, when the extraction succeeds: the state at line 316, the state handed to task
  2, and the events.
\<close>

definition extracted_state :: "env \<Rightarrow> string \<Rightarrow> json list \<Rightarrow> snapshot" where
  "extracted_state e url els =
     \<lparr>elements_json_str = Json_dumps els 4,
      test_cases_df = [],
      scripts_df = [],
      elements_filepath = Some (saved_path (fs_elements e) (artifact_filename ''elements_'' url ''.json'')),
      test_cases_filepath = None,
      scripts_filepath = None,
      status_updates = [Processing_started, Scraping url,
        Extracted (length els) (saved_path (fs_elements e) (artifact_filename ''elements_'' url ''.json''))]\<rparr>"

definition task1_state :: "env \<Rightarrow> string \<Rightarrow> json list \<Rightarrow> snapshot" where
  "task1_state e url els =
     (if length els > max_elements_for_ai
      then status_append (Truncation_note max_elements_for_ai) (extracted_state e url els)
      else extracted_state e url els)"

definition task1_events :: "env \<Rightarrow> string \<Rightarrow> json list \<Rightarrow> event list" where
  "task1_events e url els =
     [Yield (status_append Processing_started initial_state),
      Yield (status_append (Scraping url) (status_append Processing_started initial_state)),
      Call_extract_elements url,
      Call_save_elements_to_json els (artifact_filename ''elements_'' url ''.json''),
      Yield (extracted_state e url els)]
     @ (if length els > max_elements_for_ai then [Yield (task1_state e url els)] else [])"

text \<open>
  Task 2: the state at line 345 after a failed generation, and at line 357 after a
  successful one, for the table \<open>df\<close> that \<^verbatim>\<open>generate_test_cases\<close> returned; the
  state and the events when task 2 hands over to task 3, in either case.
\<close>

definition warned_state :: "env \<Rightarrow> string \<Rightarrow> int \<Rightarrow> test_case list \<Rightarrow> snapshot \<Rightarrow> snapshot" where
  "warned_state e url n df st =
     (if df = [] then
        (status_append Generation_warning (status_append (Generating_test_cases n) st))
          \<lparr>test_cases_filepath := None\<rparr>
      else
        (status_append Generation_warning (status_append (Generating_test_cases n) st))
          \<lparr>test_cases_df := df,
            test_cases_filepath :=
              Some (saved_path (fs_test_cases e) (artifact_filename ''test_cases_'' url ''_error.xlsx''))\<rparr>)"

definition generated_state :: "env \<Rightarrow> string \<Rightarrow> int \<Rightarrow> test_case list \<Rightarrow> snapshot \<Rightarrow> snapshot" where
  "generated_state e url n df st =
     status_append
       (Generated_test_cases (length df)
          (saved_path (fs_test_cases e) (artifact_filename ''test_cases_'' url ''.xlsx'')))
       ((status_append (Generating_test_cases n) st)
          \<lparr>test_cases_df := df,
            test_cases_filepath :=
              Some (saved_path (fs_test_cases e) (artifact_filename ''test_cases_'' url ''.xlsx''))\<rparr>)"

definition tabled_state :: "env \<Rightarrow> string \<Rightarrow> int \<Rightarrow> test_case list \<Rightarrow> snapshot \<Rightarrow> snapshot" where
  "tabled_state e url n df st =
     (if has_error_row df then warned_state e url n df st else generated_state e url n df st)"

definition task2_events ::
  "env \<Rightarrow> string \<Rightarrow> int \<Rightarrow> json_text \<Rightarrow> test_case list \<Rightarrow> snapshot \<Rightarrow> event list" where
  "task2_events e url n ai df st =
     [Yield (status_append (Generating_test_cases n) st),
      Call_generate_test_cases ai url n,
      Call_save_test_cases_to_excel df
        (artifact_filename ''test_cases_'' url
           (if has_error_row df then ''_error.xlsx'' else ''.xlsx'')),
      Yield (tabled_state e url n df st)]"

text \<open>Task 3 with valid rows: the state at line 373, and at line 395.\<close>

definition mapping_state :: "snapshot \<Rightarrow> snapshot" where
  "mapping_state st =
     status_append (Mapping_test_cases (length (valid_rows (test_cases_df st))))
       (status_append Generating_scripts st)"

definition scripts_done_state :: "env \<Rightarrow> string \<Rightarrow> json_text \<Rightarrow> snapshot \<Rightarrow> snapshot" where
  "scripts_done_state e url ai st =
     (let cases = valid_rows (test_cases_df st);
          path = saved_path (fs_scripts e) (artifact_filename ''test_scripts_'' url ''.xlsx'')
      in (mapping_state st)
           \<lparr>scripts_df := accumulated_scripts e ai url 0 cases,
             scripts_filepath := Some path,
             status_updates :=
               status_updates (mapping_state st)
               @ map (\<lambda>tc. Generating_script_for (tc_id tc)) cases
               @ [Generated_scripts (length cases) path]\<rparr>)"


section \<open>Order of the snapshots\<close>

text \<open>
  The log of \<open>b\<close> extends the log of \<open>a\<close>. A task started in state \<open>st\<close> is ordered when
  the logs of its snapshots extend that of \<open>st\<close> and one another in the order of
  emission, and the log of the state it hands over extends them all.
\<close>

definition log_extends :: "snapshot \<Rightarrow> snapshot \<Rightarrow> bool" where
  "log_extends a b = prefix (status_updates a) (status_updates b)"

definition stage_ordered :: "snapshot \<Rightarrow> event list \<Rightarrow> snapshot option \<Rightarrow> bool" where
  "stage_ordered st evs next =
     (sorted_wrt log_extends (snapshots evs)
      \<and> list_all (log_extends st) (snapshots evs)
      \<and> (case next of
            None \<Rightarrow> True
          | Some st' \<Rightarrow> log_extends st st' \<and> list_all (\<lambda>s. log_extends s st') (snapshots evs)))"

section \<open>What tasks 2 and 3 leave alone\<close>

text \<open>
  A snapshot keeps the elements of a state when it has the same elements text and the
  same truncation notes in its log. A task keeps the elements when all its snapshots and
  the state it hands over do, all the payloads it passes to a generator are \<open>ai\<close>, and
  it does not call the elements exporter.
\<close>

definition keeps_elements :: "snapshot \<Rightarrow> snapshot \<Rightarrow> bool" where
  "keeps_elements st s =
     (elements_json_str s = elements_json_str st
      \<and> filter is_truncation_note (status_updates s)
          = filter is_truncation_note (status_updates st))"


section \<open>A run whose writes fail, seen from the run whose writes succeed\<close>

text \<open>
  \<open>blank_path fs path\<close> is what an exporter returns instead of \<open>path\<close> when its write
  fails. \<open>blank_event e\<close> replaces, in a snapshot, the paths of the exporters whose write
  fails in \<open>e\<close> by the empty string, in the three path fields and in the three log lines
  that quote a path; it leaves a call as it is. \<open>all_written e\<close> is \<open>e\<close> with every write
  succeeding.
\<close>

definition blank_path :: "fs_outcome \<Rightarrow> string \<Rightarrow> string" where
  "blank_path fs path = (if fs = Write_raises then [] else path)"

fun blank_line :: "env \<Rightarrow> status_line \<Rightarrow> status_line" where
  "blank_line e (Extracted k path) = Extracted k (blank_path (fs_elements e) path)"
| "blank_line e (Generated_test_cases k path) =
     Generated_test_cases k (blank_path (fs_test_cases e) path)"
| "blank_line e (Generated_scripts k path) = Generated_scripts k (blank_path (fs_scripts e) path)"
| "blank_line e l = l"

definition blank_snapshot :: "env \<Rightarrow> snapshot \<Rightarrow> snapshot" where
  "blank_snapshot e s =
     s\<lparr>elements_filepath := map_option (blank_path (fs_elements e)) (elements_filepath s),
       test_cases_filepath := map_option (blank_path (fs_test_cases e)) (test_cases_filepath s),
       scripts_filepath := map_option (blank_path (fs_scripts e)) (scripts_filepath s),
       status_updates := map (blank_line e) (status_updates s)\<rparr>"

fun blank_event :: "env \<Rightarrow> event \<Rightarrow> event" where
  "blank_event e (Yield s) = Yield (blank_snapshot e s)"
| "blank_event e ev = ev"

definition all_written :: "env \<Rightarrow> env" where
  "all_written e =
     e\<lparr>fs_elements := Write_succeeds, fs_test_cases := Write_succeeds,
       fs_scripts := Write_succeeds\<rparr>"

section \<open>Concrete environments\<close>

text \<open>
  The scenario of section 8 of the specification: two elements are extracted from
  \<^verbatim>\<open>https://example.com\<close>, the model answers with two test cases and one script for
  each, and every file is written.
\<close>

definition sample_case :: "string \<Rightarrow> json" where
  "sample_case ident =
     JObject [(''Test Case ID'', JString ident), (''Test Scenario'', JString ''Open the cart''),
              (''Steps to Execute'', JString ''1. Click Cart''),
              (''Expected Result'', JString ''The cart page loads'')]"

definition sample_reply :: string where
  \<open>sample_reply = ''[{"Test Case ID": "TC001"}, {"Test Case ID": "TC002"}]''\<close>

definition sample_loads :: "string \<Rightarrow> json option" where
  "sample_loads text =
     (if text = sample_reply then Some (JArray [sample_case ''TC001'', sample_case ''TC002''])
      else if text = ''[]'' then Some (JArray [])
      else None)"

definition sample_elements :: "json list" where
  "sample_elements =
     [JObject [(''type'', JString ''button''), (''text'', JString ''Add to cart'')],
      JObject [(''type'', JString ''link''), (''text'', JString ''Cart''),
               (''href'', JString ''cart.html'')]]"

definition sample_env :: env where
  "sample_env =
     \<lparr>extract_elements = (\<lambda>url. Inr sample_elements),
      fs_elements = Write_succeeds,
      fs_test_cases = Write_succeeds,
      fs_scripts = Write_succeeds,
      client = True,
      chat_test_cases = (\<lambda>ai url n. Message_content sample_reply),
      chat_script = (\<lambda>i tc ai url. Message_content ''driver.quit()''),
      json_loads = sample_loads,
      py_strip = (\<lambda>s. s)\<rparr>"






text \<open>
  When no file can be written; and when the elements file cannot be written and the
  output directory cannot be created for the test cases.
\<close>

definition unwritable_env :: env where
  "unwritable_env =
     sample_env\<lparr>fs_elements := Write_raises, fs_test_cases := Write_raises,
       fs_scripts := Write_raises\<rparr>"

definition failing_env :: env where
  "failing_env =
     sample_env\<lparr>fs_elements := Write_raises,
       fs_test_cases := Makedirs_raises ''Permission denied''\<rparr>"

section \<open>Exporters that do not raise\<close>

lemma save_elements_ok:
  "makedirs_ok fs \<Longrightarrow> save_elements_to_json fs d f = Inr (saved_path fs f)"
  by (cases fs) (simp_all add: save_elements_to_json_def saved_path_def)

lemma save_test_cases_ok:
  "makedirs_ok fs \<Longrightarrow> save_test_cases_to_excel fs d f = Inr (saved_path fs f)"
  by (cases fs) (simp_all add: save_test_cases_to_excel_def saved_path_def)

lemma save_scripts_ok:
  "makedirs_ok fs \<Longrightarrow> save_scripts_to_excel fs d f = Inr (saved_path fs f)"
  by (cases fs) (simp_all add: save_scripts_to_excel_def saved_path_def)

lemma sample_extraction_succeeds:
  "extraction_succeeds sample_env ''https://example.com'' sample_elements"
  by (simp add: extraction_succeeds_def sample_env_def url_accepted_def sample_elements_def)

section \<open>Input validation\<close>

text \<open>
  C1. For every url that is empty or starts with neither \<^verbatim>\<open>http://\<close> nor
  \<^verbatim>\<open>https://\<close>, and every requested count, the run is exactly one snapshot. Its log
  contains the input-error line, its elements text is the initial \<^verbatim>\<open>{}\<close>, its
  test-case and script tables are empty, and no collaborator is called.
\<close>

theorem invalid_url_single_snapshot:
  assumes "url = [] \<or> (\<not> prefix ''http://'' url \<and> \<not> prefix ''https://'' url)"
  shows "\<exists>s. process_website e url n = [Yield s]
           \<and> Invalid_url \<in> set (status_updates s)
           \<and> elements_json_str s = Empty_object_text
           \<and> test_cases_df s = [] \<and> scripts_df s = []
           \<and> \<not> list_ex is_collaborator_call (process_website e url n)"
  using assms
  by (auto simp: process_website_def url_accepted_def status_append_def initial_state_def)

theorem invalid_url_single_snapshot_witness:
  "(''ftp://example.com'' = []
      \<or> (\<not> prefix ''http://'' ''ftp://example.com'' \<and> \<not> prefix ''https://'' ''ftp://example.com''))
   \<and> (\<exists>s. process_website sample_env ''ftp://example.com'' 3 = [Yield s]
           \<and> Invalid_url \<in> set (status_updates s)
           \<and> elements_json_str s = Empty_object_text
           \<and> test_cases_df s = [] \<and> scripts_df s = []
           \<and> \<not> list_ex is_collaborator_call (process_website sample_env ''ftp://example.com'' 3))"
proof -
  have h: "''ftp://example.com'' = []
      \<or> (\<not> prefix ''http://'' ''ftp://example.com'' \<and> \<not> prefix ''https://'' ''ftp://example.com'')"
    by simp
  show ?thesis using h invalid_url_single_snapshot [OF h, of sample_env 3] by blast
qed

section \<open>The response validator\<close>





section \<open>A missing client\<close>

text \<open>
  C10. When the client is \<^verbatim>\<open>None\<close>, \<^verbatim>\<open>generate_test_cases\<close> returns the empty
  table for every input and \<^verbatim>\<open>generate_selenium_script\<close> returns the fixed string
  \<^verbatim>\<open>Error: GenAI client not initialized.\<close> A run that reaches task 2 then never calls
  \<^verbatim>\<open>save_test_cases_to_excel\<close> nor \<^verbatim>\<open>generate_selenium_script\<close>; in each of its
  snapshots the test-case path is unset, both tables are empty and the log has no
  task 3 line; its last snapshot ends with the stopping line.
\<close>

theorem absent_client:
  assumes "\<not> client e"
  shows "generate_test_cases e ai url n = []
         \<and> generate_selenium_script e i tc ai url = ''Error: GenAI client not initialized.''
         \<and> (extraction_succeeds e url els \<longrightarrow>
              \<not> list_ex is_save_test_cases_call (process_website e url n)
              \<and> \<not> list_ex is_script_call (process_website e url n)
              \<and> (\<forall>s \<in> set (snapshots (process_website e url n)).
                    test_cases_filepath s = None \<and> test_cases_df s = [] \<and> scripts_df s = []
                    \<and> Generating_scripts \<notin> set (status_updates s))
              \<and> (\<exists>s. last (process_website e url n) = Yield s
                    \<and> last (status_updates s) = Stopping))"
proof -
  have g: "\<And>ai url n. generate_test_cases e ai url n = []"
    using assms by (simp add: generate_test_cases_def)
  have s: "generate_selenium_script e i tc ai url = ''Error: GenAI client not initialized.''"
    using assms by (simp add: generate_selenium_script_def)
  have r: "\<not> list_ex is_save_test_cases_call (process_website e url n)
              \<and> \<not> list_ex is_script_call (process_website e url n)
              \<and> (\<forall>s \<in> set (snapshots (process_website e url n)).
                    test_cases_filepath s = None \<and> test_cases_df s = [] \<and> scripts_df s = []
                    \<and> Generating_scripts \<notin> set (status_updates s))
              \<and> (\<exists>s. last (process_website e url n) = Yield s
                    \<and> last (status_updates s) = Stopping)"
    if ex: "extraction_succeeds e url els"
    using ex g
    by (simp add: save_elements_ok extraction_succeeds_def process_website_def task1_def
        task2_def after_failed_generation_def Let_def status_append_def initial_state_def
        critical_error_def)
  show ?thesis using g s r by blast
qed

theorem absent_client_witness:
  "\<not> client (sample_env\<lparr>client := False\<rparr>)
   \<and> extraction_succeeds (sample_env\<lparr>client := False\<rparr>) ''https://example.com'' sample_elements
   \<and> generate_test_cases (sample_env\<lparr>client := False\<rparr>) (Json_dumps sample_elements 2)
       ''https://example.com'' 2 = []
   \<and> \<not> list_ex is_script_call
         (process_website (sample_env\<lparr>client := False\<rparr>) ''https://example.com'' 2)
   \<and> (\<exists>s. last (process_website (sample_env\<lparr>client := False\<rparr>) ''https://example.com'' 2)
            = Yield s
          \<and> last (status_updates s) = Stopping)"
proof -
  have c: "\<not> client (sample_env\<lparr>client := False\<rparr>)" by simp
  have x: "extraction_succeeds (sample_env\<lparr>client := False\<rparr>) ''https://example.com''
             sample_elements"
    by (simp add: extraction_succeeds_def sample_env_def url_accepted_def sample_elements_def)
  show ?thesis
    using c x absent_client [OF c, of "Json_dumps sample_elements 2" "''https://example.com''"
        2 0 undefined sample_elements]
    by blast
qed

section \<open>The script loop\<close>

lemma loop_events_Nil: "loop_events ai url st [] = []"
  by (simp add: loop_events_def)

lemma loop_events_Cons:
  "loop_events ai url st (tc # rest) =
     Yield (status_append (Generating_script_for (tc_id tc)) st)
     # Call_generate_selenium_script tc ai url
     # loop_events ai url (status_append (Generating_script_for (tc_id tc)) st) rest"
  by (simp add: loop_events_def progress_state_def status_append_def map_upt_Suc
      del: upt_Suc)

lemma script_loop_eq:
  "script_loop e ai url i cases st acc =
     (loop_events ai url st cases,
      st\<lparr>status_updates :=
           status_updates st @ map (\<lambda>tc. Generating_script_for (tc_id tc)) cases\<rparr>,
      acc @ accumulated_scripts e ai url i cases)"
proof (induction cases arbitrary: i st acc)
  case Nil
  show ?case by (simp add: loop_events_Nil accumulated_scripts_def)
next
  case (Cons tc rest)
  show ?case
    by (simp add: Cons.IH loop_events_Cons accumulated_scripts_def status_append_def Let_def)
qed

lemma length_accumulated_scripts [simp]:
  "length (accumulated_scripts e ai url i cases) = length cases"
  by (simp add: accumulated_scripts_def)

section \<open>Reading a list of events\<close>

lemma snapshots_append [simp]: "snapshots (xs @ ys) = snapshots xs @ snapshots ys"
  by (induction xs rule: snapshots.induct) simp_all

lemma script_calls_append [simp]: "script_calls (xs @ ys) = script_calls xs @ script_calls ys"
  by (induction xs rule: script_calls.induct) simp_all

lemma ai_payloads_append [simp]: "ai_payloads (xs @ ys) = ai_payloads xs @ ai_payloads ys"
  by (induction xs rule: ai_payloads.induct) simp_all

lemma script_calls_loop_events [simp]: "script_calls (loop_events ai url st cases) = cases"
  by (induction cases arbitrary: st) (simp_all add: loop_events_Nil loop_events_Cons)

lemma ai_payloads_loop_events [simp]:
  "ai_payloads (loop_events ai url st cases) = replicate (length cases) ai"
  by (induction cases arbitrary: st) (simp_all add: loop_events_Nil loop_events_Cons)


section \<open>The three tasks, case by case\<close>

lemma task1_succeeds:
  assumes "extraction_succeeds e url els"
  shows "task1 e url initial_state
           = (task1_events e url els, Some (elements_json_str_for_ai els, task1_state e url els))"
  using assms
  by (simp add: extraction_succeeds_def task1_def task1_events_def task1_state_def
      extracted_state_def elements_json_str_for_ai_def save_elements_ok Let_def
      status_append_def initial_state_def)

lemma parse_error_is_error: "has_parse_error df \<Longrightarrow> has_error_row df"
  by (auto simp: has_parse_error_def has_error_row_def list_ex_iff is_parse_error_id_def
      is_error_id_def)


lemma task2_soft:
  assumes "generate_test_cases e ai url n = df" and "df \<noteq> []" and "has_error_row df"
    and "\<not> has_parse_error df" and "makedirs_ok (fs_test_cases e)"
  shows "task2 e url n ai st =
           ([Yield (status_append (Generating_test_cases n) st),
             Call_generate_test_cases ai url n,
             Call_save_test_cases_to_excel df
               (artifact_filename ''test_cases_'' url ''_error.xlsx''),
             Yield (warned_state e url n df st)],
            Some (True, warned_state e url n df st))"
  using assms
  by (simp add: task2_def after_failed_generation_def warned_state_def Let_def
      status_append_def save_test_cases_ok has_parse_error_def has_error_row_def)

lemma task2_success:
  assumes "generate_test_cases e ai url n = df" and "df \<noteq> []" and "\<not> has_error_row df"
    and "makedirs_ok (fs_test_cases e)"
  shows "task2 e url n ai st =
           ([Yield (status_append (Generating_test_cases n) st),
             Call_generate_test_cases ai url n,
             Call_save_test_cases_to_excel df (artifact_filename ''test_cases_'' url ''.xlsx''),
             Yield (generated_state e url n df st)],
            Some (False, generated_state e url n df st))"
  using assms
  by (simp add: task2_def generated_state_def Let_def status_append_def save_test_cases_ok
      has_error_row_def)

lemma task3_scripts:
  assumes "valid_rows (test_cases_df st) \<noteq> []" and "makedirs_ok (fs_scripts e)"
  shows "task3 e url ai generation_failed st =
           ([Yield (status_append Generating_scripts st), Yield (mapping_state st)]
            @ loop_events ai url (mapping_state st) (valid_rows (test_cases_df st))
            @ [Call_save_scripts_to_excel
                 (accumulated_scripts e ai url 0 (valid_rows (test_cases_df st)))
                 (artifact_filename ''test_scripts_'' url ''.xlsx''),
               Yield (scripts_done_state e url ai st)],
            Some (scripts_done_state e url ai st))"
  using assms
  by (simp add: task3_def script_loop_eq mapping_state_def scripts_done_state_def Let_def
      status_append_def save_scripts_ok valid_rows_def)


section \<open>Critical failure of the generation\<close>


lemma script_calls_task1_events [simp]: "script_calls (task1_events e url els) = []"
  by (simp add: task1_events_def)

lemma task1_state_tables [simp]:
  "test_cases_df (task1_state e url els) = []" "scripts_df (task1_state e url els) = []"
  by (simp_all add: task1_state_def extracted_state_def status_append_def)




lemma sample_payload: "elements_json_str_for_ai sample_elements = Json_dumps sample_elements 2"
  by (simp add: elements_json_str_for_ai_def sample_elements_def max_elements_for_ai_def)



section \<open>Soft failure of the generation\<close>











section \<open>Runs that generate scripts\<close>

lemma task2_continues:
  assumes "generate_test_cases e ai url n = df" and "df \<noteq> []" and "\<not> has_parse_error df"
    and "makedirs_ok (fs_test_cases e)"
  shows "task2 e url n ai st =
           (task2_events e url n ai df st, Some (has_error_row df, tabled_state e url n df st))"
proof (cases "has_error_row df")
  case True
  show ?thesis
    using task2_soft [OF assms(1) assms(2) True assms(3) assms(4), of st] True
    by (simp add: task2_events_def tabled_state_def)
next
  case False
  show ?thesis
    using task2_success [OF assms(1) assms(2) False assms(4), of st] False
    by (simp add: task2_events_def tabled_state_def)
qed

lemma tabled_state_table [simp]: "df \<noteq> [] \<Longrightarrow> test_cases_df (tabled_state e url n df st) = df"
  by (simp add: tabled_state_def warned_state_def generated_state_def status_append_def)

lemma tabled_state_scripts [simp]:
  "scripts_df (tabled_state e url n df st) = scripts_df st"
  by (simp add: tabled_state_def warned_state_def generated_state_def status_append_def)

lemma run_scripts:
  assumes "extraction_succeeds e url els"
    and "generate_test_cases e (elements_json_str_for_ai els) url n = df"
    and "\<not> has_parse_error df" and "valid_rows df \<noteq> []"
    and "makedirs_ok (fs_test_cases e)" and "makedirs_ok (fs_scripts e)"
  shows "process_website e url n =
           (task1_events e url els
            @ task2_events e url n (elements_json_str_for_ai els) df (task1_state e url els)
            @ [Yield (status_append Generating_scripts
                       (tabled_state e url n df (task1_state e url els))),
               Yield (mapping_state (tabled_state e url n df (task1_state e url els)))])
           @ loop_events (elements_json_str_for_ai els) url
               (mapping_state (tabled_state e url n df (task1_state e url els))) (valid_rows df)
           @ [Call_save_scripts_to_excel
                (accumulated_scripts e (elements_json_str_for_ai els) url 0 (valid_rows df))
                (artifact_filename ''test_scripts_'' url ''.xlsx''),
              Yield (scripts_done_state e url (elements_json_str_for_ai els)
                       (tabled_state e url n df (task1_state e url els))),
              Yield (status_append Processing_finished
                       (scripts_done_state e url (elements_json_str_for_ai els)
                          (tabled_state e url n df (task1_state e url els))))]"
proof -
  have u: "url_accepted url" using assms(1) by (simp add: extraction_succeeds_def)
  have ne: "df \<noteq> []" using assms(4) by (auto simp: valid_rows_def)
  have v: "valid_rows (test_cases_df (tabled_state e url n df (task1_state e url els))) \<noteq> []"
    using assms(4) ne by simp
  show ?thesis
    using u task1_succeeds [OF assms(1)]
      task2_continues [OF assms(2) ne assms(3) assms(5), of "task1_state e url els"]
      task3_scripts [OF v assms(6), of url "elements_json_str_for_ai els" "has_error_row df"] ne
    by (simp add: process_website_def)
qed

lemma mapping_state_scripts [simp]: "scripts_df (mapping_state st) = scripts_df st"
  by (simp add: mapping_state_def status_append_def)


lemma script_calls_task2_events [simp]: "script_calls (task2_events e url n ai df st) = []"
  by (simp add: task2_events_def)


lemma sample_table:
  "generate_test_cases sample_env (elements_json_str_for_ai sample_elements) ''https://example.com'' n
     = [row_of_dict (sample_case ''TC001''), row_of_dict (sample_case ''TC002'')]"
  by (simp add: generate_test_cases_def sample_env_def parse_ai_test_cases_def sample_loads_def
      sample_case_def required_keys_def has_key_def data_frame_def)

lemma sample_rows_valid:
  "\<not> has_error_row [row_of_dict (sample_case ''TC001''), row_of_dict (sample_case ''TC002'')]"
  by (simp add: has_error_row_def row_of_dict_def sample_case_def is_error_id_def)

lemma no_error_row_valid: "\<not> has_error_row df \<Longrightarrow> valid_rows df = df"
  by (induction df) (auto simp: has_error_row_def valid_rows_def)

lemma no_error_row_no_parse_error: "\<not> has_error_row df \<Longrightarrow> \<not> has_parse_error df"
  using parse_error_is_error by blast

lemma scripts_done_state_tables:
  "test_cases_df (scripts_done_state e url ai st) = test_cases_df st"
  "scripts_df (scripts_done_state e url ai st)
     = accumulated_scripts e ai url 0 (valid_rows (test_cases_df st))"
  by (simp_all add: scripts_done_state_def Let_def mapping_state_def status_append_def)

text \<open>
  C5, amended. In a run that completes the three tasks with a non-empty table without
  error rows, the last snapshot holds the table that \<^verbatim>\<open>generate_test_cases\<close> returned,
  of length at least 1, and its script table has as many rows as the test-case table has
  valid rows. The requested count does not bound the table.
\<close>

theorem successful_run_tables:
  assumes "extraction_succeeds e url els"
    and "generate_test_cases e (elements_json_str_for_ai els) url n = df"
    and "df \<noteq> []" and "\<not> has_error_row df"
    and "makedirs_ok (fs_test_cases e)" and "makedirs_ok (fs_scripts e)"
  shows "\<exists>s. last (process_website e url n) = Yield s
           \<and> last (status_updates s) = Processing_finished
           \<and> test_cases_df s = df
           \<and> 1 \<le> length (test_cases_df s)
           \<and> length (scripts_df s) = length (valid_rows (test_cases_df s))"
proof -
  have v: "valid_rows df \<noteq> []"
    using assms(3,4) by (simp add: no_error_row_valid)
  note run = run_scripts [OF assms(1) assms(2) no_error_row_no_parse_error [OF assms(4)] v
      assms(5) assms(6)]
  have l: "1 \<le> length df" using assms(3) by (cases df) simp_all
  show ?thesis
    using assms(3) l
    by (simp add: run status_append_def scripts_done_state_tables)
qed

theorem successful_run_tables_witness:
  "extraction_succeeds sample_env ''https://example.com'' sample_elements
   \<and> generate_test_cases sample_env (elements_json_str_for_ai sample_elements)
        ''https://example.com'' 2 \<noteq> []
   \<and> \<not> has_error_row (generate_test_cases sample_env (elements_json_str_for_ai sample_elements)
        ''https://example.com'' 2)
   \<and> makedirs_ok (fs_test_cases sample_env) \<and> makedirs_ok (fs_scripts sample_env)
   \<and> (\<exists>s. last (process_website sample_env ''https://example.com'' 2) = Yield s
          \<and> last (status_updates s) = Processing_finished
          \<and> test_cases_df s = generate_test_cases sample_env
               (elements_json_str_for_ai sample_elements) ''https://example.com'' 2
          \<and> 1 \<le> length (test_cases_df s)
          \<and> length (scripts_df s) = length (valid_rows (test_cases_df s)))"
proof -
  have n: "generate_test_cases sample_env (elements_json_str_for_ai sample_elements)
        ''https://example.com'' 2 \<noteq> []"
    by (simp add: sample_table)
  have v: "\<not> has_error_row (generate_test_cases sample_env
        (elements_json_str_for_ai sample_elements) ''https://example.com'' 2)"
    by (simp add: sample_table sample_rows_valid)
  have m: "makedirs_ok (fs_test_cases sample_env)" "makedirs_ok (fs_scripts sample_env)"
    by (simp_all add: sample_env_def)
  show ?thesis
    using successful_run_tables [OF sample_extraction_succeeds refl n v m]
      sample_extraction_succeeds n v m
    by blast
qed

text \<open>
  C5 as stated fails: with a requested count of 1 and a model that answers with two
  records, the run completes the three tasks and its last snapshot has two test cases.
\<close>

theorem requested_count_not_enforced_counterexample:
  "extract_elements sample_env ''https://example.com'' = Inr sample_elements
   \<and> sample_elements \<noteq> []
   \<and> generate_test_cases sample_env (Json_dumps sample_elements 2) ''https://example.com'' 1
       = [row_of_dict (sample_case ''TC001''), row_of_dict (sample_case ''TC002'')]
   \<and> \<not> is_error_id (tc_id (row_of_dict (sample_case ''TC001'')))
   \<and> \<not> is_error_id (tc_id (row_of_dict (sample_case ''TC002'')))
   \<and> last (status_updates (last (snapshots (process_website sample_env ''https://example.com'' 1))))
       = Processing_finished
   \<and> length (scripts_df (last (snapshots (process_website sample_env ''https://example.com'' 1))))
       = 2
   \<and> length (test_cases_df (last (snapshots (process_website sample_env ''https://example.com'' 1))))
       = 2
   \<and> \<not> int (length (test_cases_df
                (last (snapshots (process_website sample_env ''https://example.com'' 1))))) \<le> 1"
  by (simp add: process_website_def url_accepted_def task1_def task2_def task3_def
    after_failed_generation_def sample_env_def Let_def save_elements_to_json_def
    save_test_cases_to_excel_def save_scripts_to_excel_def generate_test_cases_def
    parse_ai_test_cases_def sample_loads_def sample_case_def required_keys_def has_key_def
    data_frame_def row_of_dict_def is_error_id_def is_parse_error_id_def sample_elements_def
    max_elements_for_ai_def status_append_def initial_state_def generate_selenium_script_def
    critical_error_def suffix_to_prefix)

section \<open>The log only grows\<close>

lemma log_extends_refl [simp]: "log_extends a a"
  by (simp add: log_extends_def)

lemma log_extends_trans: "log_extends a b \<Longrightarrow> log_extends b c \<Longrightarrow> log_extends a c"
  by (auto simp: log_extends_def)

lemma status_updates_status_append [simp]:
  "status_updates (status_append l st) = status_updates st @ [l]"
  by (simp add: status_append_def)

lemma log_extends_append [simp]:
  "log_extends a (status_append l b) = (log_extends a b \<or> status_updates a = status_updates b @ [l])"
  by (auto simp: log_extends_def status_append_def)

lemma stage_ordered_compose:
  assumes "stage_ordered st evs1 (Some st1)" and "stage_ordered st1 evs2 next"
  shows "stage_ordered st (evs1 @ evs2) next"
  using assms
  by (auto simp: stage_ordered_def sorted_wrt_append list_all_iff split: option.splits
      intro: log_extends_trans)

lemma stage_ordered_loop:
  "stage_ordered st (loop_events ai url st cases)
     (Some (st\<lparr>status_updates :=
                 status_updates st @ map (\<lambda>tc. Generating_script_for (tc_id tc)) cases\<rparr>))"
proof (induction cases arbitrary: st)
  case Nil
  show ?case by (simp add: loop_events_Nil stage_ordered_def log_extends_def)
next
  case (Cons tc rest)
  let ?st1 = "status_append (Generating_script_for (tc_id tc)) st"
  have a: "stage_ordered st [Yield ?st1, Call_generate_selenium_script tc ai url] (Some ?st1)"
    by (simp add: stage_ordered_def)
  have b: "?st1\<lparr>status_updates :=
               status_updates ?st1 @ map (\<lambda>tc. Generating_script_for (tc_id tc)) rest\<rparr>
           = st\<lparr>status_updates :=
               status_updates st @ map (\<lambda>tc. Generating_script_for (tc_id tc)) (tc # rest)\<rparr>"
    by (simp add: status_append_def)
  have c: "stage_ordered st
             ([Yield ?st1, Call_generate_selenium_script tc ai url] @ loop_events ai url ?st1 rest)
             (Some (?st1\<lparr>status_updates :=
                status_updates ?st1 @ map (\<lambda>tc. Generating_script_for (tc_id tc)) rest\<rparr>))"
    by (rule stage_ordered_compose [OF a Cons.IH])
  show ?case
    using c [unfolded b] by (simp only: loop_events_Cons append_Cons append_Nil)
qed

lemma log_extends_fields [simp]:
  "log_extends a (b\<lparr>elements_json_str := j\<rparr>) = log_extends a b"
  "log_extends a (b\<lparr>elements_filepath := p\<rparr>) = log_extends a b"
  "log_extends a (b\<lparr>test_cases_df := d\<rparr>) = log_extends a b"
  "log_extends a (b\<lparr>test_cases_filepath := p\<rparr>) = log_extends a b"
  "log_extends a (b\<lparr>scripts_df := sd\<rparr>) = log_extends a b"
  "log_extends a (b\<lparr>scripts_filepath := p\<rparr>) = log_extends a b"
  "log_extends (a\<lparr>elements_json_str := j\<rparr>) b = log_extends a b"
  "log_extends (a\<lparr>elements_filepath := p\<rparr>) b = log_extends a b"
  "log_extends (a\<lparr>test_cases_df := d\<rparr>) b = log_extends a b"
  "log_extends (a\<lparr>test_cases_filepath := p\<rparr>) b = log_extends a b"
  "log_extends (a\<lparr>scripts_df := sd\<rparr>) b = log_extends a b"
  "log_extends (a\<lparr>scripts_filepath := p\<rparr>) b = log_extends a b"
  by (simp_all add: log_extends_def)

lemma task1_ordered:
  "stage_ordered st (fst (task1 e url st)) (map_option snd (snd (task1 e url st)))"
  by (simp add: task1_def stage_ordered_def Let_def critical_error_def
      split: sum.splits)

lemma after_failed_generation_ordered:
  "stage_ordered st (fst (after_failed_generation st))
     (map_option snd (snd (after_failed_generation st)))"
  by (simp add: after_failed_generation_def stage_ordered_def)

lemma task2_ordered:
  "stage_ordered st (fst (task2 e url n ai st)) (map_option snd (snd (task2 e url n ai st)))"
  by (simp add: task2_def after_failed_generation_def stage_ordered_def Let_def
      critical_error_def split: sum.splits prod.splits)

lemma status_append_fields [simp]:
  "elements_json_str (status_append l st) = elements_json_str st"
  "test_cases_df (status_append l st) = test_cases_df st"
  "scripts_df (status_append l st) = scripts_df st"
  "elements_filepath (status_append l st) = elements_filepath st"
  "test_cases_filepath (status_append l st) = test_cases_filepath st"
  "scripts_filepath (status_append l st) = scripts_filepath st"
  by (simp_all add: status_append_def)

lemma task3_ordered:
  "stage_ordered st (fst (task3 e url ai gf st)) (snd (task3 e url ai gf st))"
proof -
  let ?st1 = "status_append Generating_scripts st"
  let ?cases = "filter (\<lambda>tc. \<not> is_error_id (tc_id tc)) (test_cases_df st)"
  let ?st2 = "status_append (Mapping_test_cases (length ?cases)) ?st1"
  let ?st3 = "?st2\<lparr>status_updates :=
      status_updates ?st2 @ map (\<lambda>tc. Generating_script_for (tc_id tc)) ?cases\<rparr>"
  show ?thesis
  proof (cases "?cases = []")
    case True
    then show ?thesis
      by (simp add: task3_def stage_ordered_def Let_def status_append_def log_extends_def)
  next
    case False
    have a: "stage_ordered st [Yield ?st1, Yield ?st2] (Some ?st2)"
      by (simp add: stage_ordered_def)
    have b: "stage_ordered st ([Yield ?st1, Yield ?st2] @ loop_events ai url ?st2 ?cases)
               (Some ?st3)"
      by (rule stage_ordered_compose [OF a stage_ordered_loop])
    have c: "stage_ordered ?st3 (Call_save_scripts_to_excel sd f # critical_error msg (?st3\<lparr>scripts_df := sd\<rparr>)) None"
      for sd f msg
      by (simp add: stage_ordered_def critical_error_def)
    have d: "stage_ordered ?st3
               [Call_save_scripts_to_excel sd f,
                Yield (status_append l (?st3\<lparr>scripts_df := sd, scripts_filepath := Some p\<rparr>))]
               (Some (status_append l (?st3\<lparr>scripts_df := sd, scripts_filepath := Some p\<rparr>)))"
      for sd f l p
      by (simp add: stage_ordered_def)
    show ?thesis
    proof (cases "save_scripts_to_excel (fs_scripts e) (accumulated_scripts e ai url 0 ?cases)
                    (artifact_filename ''test_scripts_'' url ''.xlsx'')")
      case (Inl msg)
      show ?thesis
        using False Inl stage_ordered_compose [OF b c]
        by (simp add: task3_def script_loop_eq Let_def)
    next
      case (Inr p)
      show ?thesis
        using False Inr stage_ordered_compose [OF b d]
        by (simp add: task3_def script_loop_eq Let_def)
    qed
  qed
qed

lemma stage_ordered_finish:
  "stage_ordered st [Yield (status_append l st)] None"
  by (simp add: stage_ordered_def)

lemma process_website_ordered:
  "sorted_wrt log_extends (snapshots (process_website e url n))"
proof (cases "url_accepted url")
  case False
  then show ?thesis by (simp add: process_website_def)
next
  case True
  obtain evs1 r1 where t1: "task1 e url initial_state = (evs1, r1)" by (cases "task1 e url initial_state")
  have o1: "stage_ordered initial_state evs1 (map_option snd r1)"
    using task1_ordered [of initial_state e url] t1 by simp
  show ?thesis
  proof (cases r1)
    case None
    with True t1 o1 show ?thesis by (simp add: process_website_def stage_ordered_def)
  next
    case (Some p1)
    obtain ai st1 where p1: "p1 = (ai, st1)" by (cases p1)
    obtain evs2 r2 where t2: "task2 e url n ai st1 = (evs2, r2)" by (cases "task2 e url n ai st1")
    have o2: "stage_ordered st1 evs2 (map_option snd r2)"
      using task2_ordered [of st1 e url n ai] t2 by simp
    have o1': "stage_ordered initial_state evs1 (Some st1)"
      using o1 Some p1 by simp
    have o12: "stage_ordered initial_state (evs1 @ evs2) (map_option snd r2)"
      by (rule stage_ordered_compose [OF o1' o2])
    show ?thesis
    proof (cases r2)
      case None
      with True t1 t2 Some p1 o12 show ?thesis
        by (simp add: process_website_def stage_ordered_def)
    next
      case (Some p2) note s2 = this
      obtain gf st2 where p2: "p2 = (gf, st2)" by (cases p2)
      obtain evs3 r3 where t3: "task3 e url ai gf st2 = (evs3, r3)"
        by (cases "task3 e url ai gf st2")
      have o3: "stage_ordered st2 evs3 r3"
        using task3_ordered [of st2 e url ai gf] t3 by simp
      have o12': "stage_ordered initial_state (evs1 @ evs2) (Some st2)"
        using o12 s2 p2 by simp
      have o123: "stage_ordered initial_state ((evs1 @ evs2) @ evs3) r3"
        by (rule stage_ordered_compose [OF o12' o3])
      show ?thesis
      proof (cases r3)
        case None
        with True t1 t2 t3 \<open>r1 = Some p1\<close> p1 s2 p2 o123 show ?thesis
          by (simp add: process_website_def stage_ordered_def)
      next
        case (Some st3)
        have o123': "stage_ordered initial_state ((evs1 @ evs2) @ evs3) (Some st3)"
          using o123 Some by simp
        have "stage_ordered initial_state
                (((evs1 @ evs2) @ evs3) @ [Yield (status_append Processing_finished st3)]) None"
          by (rule stage_ordered_compose [OF o123' stage_ordered_finish])
        with True t1 t2 t3 \<open>r1 = Some p1\<close> p1 s2 p2 Some show ?thesis
          by (simp add: process_website_def stage_ordered_def)
      qed
    qed
  qed
qed

lemma join_lines_append:
  "xs \<noteq> [] \<Longrightarrow> ys \<noteq> [] \<Longrightarrow> join_lines (xs @ ys) = join_lines xs @ CHR 0x0A # join_lines ys"
proof (induction xs rule: join_lines.induct)
  case 1
  then show ?case by simp
next
  case (2 l)
  then show ?case by (cases ys) simp_all
next
  case (3 l m ls)
  then show ?case by simp
qed

lemma join_lines_prefix:
  assumes "prefix xs ys"
  shows "prefix (join_lines xs) (join_lines ys)"
proof -
  from assms obtain zs where ys: "ys = xs @ zs" by (auto simp: prefix_def)
  show ?thesis
  proof (cases "xs = [] \<or> zs = []")
    case True
    then show ?thesis using ys by auto
  next
    case False
    then show ?thesis using ys by (simp add: join_lines_append)
  qed
qed

text \<open>
  C4. For every run and every two consecutive snapshots \<open>k\<close> and \<open>k + 1\<close> of it, the
  list of log lines of snapshot \<open>k\<close> is a prefix of that of snapshot \<open>k + 1\<close>; so is the
  text \<^verbatim>\<open>"\n".join(status_updates)\<close> that the snapshot carries, however the lines are
  rendered.
\<close>

theorem log_is_append_only:
  assumes "Suc k < length (snapshots (process_website e url n))"
  shows "prefix (status_updates (snapshots (process_website e url n) ! k))
                (status_updates (snapshots (process_website e url n) ! Suc k))
         \<and> prefix (status_text render (snapshots (process_website e url n) ! k))
                  (status_text render (snapshots (process_website e url n) ! Suc k))"
proof -
  have "log_extends (snapshots (process_website e url n) ! k)
          (snapshots (process_website e url n) ! Suc k)"
    using sorted_wrt_nth_less [OF process_website_ordered, of k "Suc k"] assms by simp
  then have p: "prefix (status_updates (snapshots (process_website e url n) ! k))
                (status_updates (snapshots (process_website e url n) ! Suc k))"
    by (simp add: log_extends_def)
  then have "prefix (map render (status_updates (snapshots (process_website e url n) ! k)))
                (map render (status_updates (snapshots (process_website e url n) ! Suc k)))"
    by (rule map_mono_prefix)
  then show ?thesis
    using p by (simp add: status_text_def join_lines_prefix)
qed

lemma sample_run_length:
  "length (snapshots (process_website sample_env ''https://example.com'' 2)) = 11"
  by (simp add: process_website_def url_accepted_def task1_def task2_def task3_def
    after_failed_generation_def sample_env_def Let_def save_elements_to_json_def
    save_test_cases_to_excel_def save_scripts_to_excel_def generate_test_cases_def
    parse_ai_test_cases_def sample_loads_def sample_case_def required_keys_def has_key_def
    data_frame_def row_of_dict_def is_error_id_def is_parse_error_id_def sample_elements_def
    max_elements_for_ai_def status_append_def initial_state_def generate_selenium_script_def
    critical_error_def suffix_to_prefix)

theorem log_is_append_only_witness:
  "Suc 0 < length (snapshots (process_website sample_env ''https://example.com'' 2))
   \<and> prefix (status_updates (snapshots (process_website sample_env ''https://example.com'' 2) ! 0))
            (status_updates (snapshots (process_website sample_env ''https://example.com'' 2) ! Suc 0))
   \<and> prefix (status_text (\<lambda>l. ''line'') (snapshots (process_website sample_env ''https://example.com'' 2) ! 0))
            (status_text (\<lambda>l. ''line'') (snapshots (process_website sample_env ''https://example.com'' 2) ! Suc 0))"
proof -
  have h: "Suc 0 < length (snapshots (process_website sample_env ''https://example.com'' 2))"
    by (simp add: sample_run_length)
  show ?thesis
    using h log_is_append_only [OF h, of "\<lambda>l. ''line''"] by simp
qed

section \<open>The truncated view\<close>


lemma keeps_elements_refl [simp]: "keeps_elements st st"
  by (simp add: keeps_elements_def)


lemma keeps_elements_append [simp]:
  "\<not> is_truncation_note l \<Longrightarrow> keeps_elements st (status_append l s) = keeps_elements st s"
  by (simp add: keeps_elements_def)

lemma keeps_elements_fields [simp]:
  "keeps_elements st (s\<lparr>test_cases_df := d\<rparr>) = keeps_elements st s"
  "keeps_elements st (s\<lparr>test_cases_filepath := p\<rparr>) = keeps_elements st s"
  "keeps_elements st (s\<lparr>scripts_df := sd\<rparr>) = keeps_elements st s"
  "keeps_elements st (s\<lparr>scripts_filepath := p\<rparr>) = keeps_elements st s"
  by (simp_all add: keeps_elements_def)











lemma ai_payloads_task1_events [simp]: "ai_payloads (task1_events e url els) = []"
  by (simp add: task1_events_def)







section \<open>Failure to persist\<close>

lemma blank_saved:
  "makedirs_ok fs \<Longrightarrow> blank_path fs (path_join OUTPUT_DIR f) = saved_path fs f"
  by (cases fs) (simp_all add: blank_path_def saved_path_def)

lemma all_written_fields [simp]:
  "extract_elements (all_written e) = extract_elements e"
  "fs_elements (all_written e) = Write_succeeds"
  "fs_test_cases (all_written e) = Write_succeeds"
  "fs_scripts (all_written e) = Write_succeeds"
  "client (all_written e) = client e"
  "chat_test_cases (all_written e) = chat_test_cases e"
  "chat_script (all_written e) = chat_script e"
  "json_loads (all_written e) = json_loads e"
  "py_strip (all_written e) = py_strip e"
  by (simp_all add: all_written_def)

lemma all_written_generate_test_cases [simp]:
  "generate_test_cases (all_written e) = generate_test_cases e"
  by (intro ext) (simp add: generate_test_cases_def split: chat_outcome.splits)

lemma all_written_generate_selenium_script [simp]:
  "generate_selenium_script (all_written e) = generate_selenium_script e"
  by (intro ext) (simp add: generate_selenium_script_def Let_def split: chat_outcome.splits)

lemma all_written_accumulated_scripts [simp]:
  "accumulated_scripts (all_written e) = accumulated_scripts e"
  by (intro ext) (simp add: accumulated_scripts_def)

lemma written_saves [simp]:
  "save_elements_to_json Write_succeeds d f = Inr (path_join OUTPUT_DIR f)"
  "save_test_cases_to_excel Write_succeeds df f = Inr (path_join OUTPUT_DIR f)"
  "save_scripts_to_excel Write_succeeds sd f = Inr (path_join OUTPUT_DIR f)"
  by (simp_all add: save_elements_to_json_def save_test_cases_to_excel_def
      save_scripts_to_excel_def)

lemma blank_snapshot_initial [simp]: "blank_snapshot e initial_state = initial_state"
  by (simp add: blank_snapshot_def initial_state_def)

lemma blank_snapshot_append [simp]:
  "blank_snapshot e (status_append l s) = status_append (blank_line e l) (blank_snapshot e s)"
  by (simp add: blank_snapshot_def status_append_def)

lemma blank_snapshot_updates [simp]:
  "blank_snapshot e (s\<lparr>elements_json_str := j\<rparr>) = (blank_snapshot e s)\<lparr>elements_json_str := j\<rparr>"
  "blank_snapshot e (s\<lparr>test_cases_df := d\<rparr>) = (blank_snapshot e s)\<lparr>test_cases_df := d\<rparr>"
  "blank_snapshot e (s\<lparr>scripts_df := sd\<rparr>) = (blank_snapshot e s)\<lparr>scripts_df := sd\<rparr>"
  "blank_snapshot e (s\<lparr>elements_filepath := p\<rparr>)
     = (blank_snapshot e s)\<lparr>elements_filepath := map_option (blank_path (fs_elements e)) p\<rparr>"
  "blank_snapshot e (s\<lparr>test_cases_filepath := p\<rparr>)
     = (blank_snapshot e s)\<lparr>test_cases_filepath := map_option (blank_path (fs_test_cases e)) p\<rparr>"
  "blank_snapshot e (s\<lparr>scripts_filepath := p\<rparr>)
     = (blank_snapshot e s)\<lparr>scripts_filepath := map_option (blank_path (fs_scripts e)) p\<rparr>"
  "blank_snapshot e (s\<lparr>status_updates := ls\<rparr>)
     = (blank_snapshot e s)\<lparr>status_updates := map (blank_line e) ls\<rparr>"
  by (simp_all add: blank_snapshot_def)

lemma blank_snapshot_fields [simp]:
  "elements_json_str (blank_snapshot e s) = elements_json_str s"
  "test_cases_df (blank_snapshot e s) = test_cases_df s"
  "scripts_df (blank_snapshot e s) = scripts_df s"
  "status_updates (blank_snapshot e s) = map (blank_line e) (status_updates s)"
  "elements_filepath (blank_snapshot e s)
     = map_option (blank_path (fs_elements e)) (elements_filepath s)"
  "test_cases_filepath (blank_snapshot e s)
     = map_option (blank_path (fs_test_cases e)) (test_cases_filepath s)"
  "scripts_filepath (blank_snapshot e s)
     = map_option (blank_path (fs_scripts e)) (scripts_filepath s)"
  by (simp_all add: blank_snapshot_def)

lemma task1_blank:
  assumes "makedirs_ok (fs_elements e)"
  shows "task1 e url (blank_snapshot e st) =
           (map (blank_event e) (fst (task1 (all_written e) url st)),
            map_option (\<lambda>(ai, s). (ai, blank_snapshot e s)) (snd (task1 (all_written e) url st)))"
  using assms
  by (simp add: task1_def Let_def critical_error_def save_elements_ok blank_saved
      split: sum.splits)

lemma after_failed_generation_blank:
  "after_failed_generation (blank_snapshot e st) =
     (map (blank_event e) (fst (after_failed_generation st)),
      map_option (\<lambda>(gf, s). (gf, blank_snapshot e s)) (snd (after_failed_generation st)))"
  by (simp add: after_failed_generation_def)

lemma task2_blank:
  assumes "makedirs_ok (fs_test_cases e)"
  shows "task2 e url n ai (blank_snapshot e st) =
           (map (blank_event e) (fst (task2 (all_written e) url n ai st)),
            map_option (\<lambda>(gf, s). (gf, blank_snapshot e s))
              (snd (task2 (all_written e) url n ai st)))"
  using assms
  by (simp add: task2_def Let_def critical_error_def save_test_cases_ok blank_saved
      after_failed_generation_def)

lemma loop_events_blank:
  "map (blank_event e) (loop_events ai url st cases)
     = loop_events ai url (blank_snapshot e st) cases"
  by (induction cases arbitrary: st) (simp_all add: loop_events_Nil loop_events_Cons)

lemma blank_line_starting [simp]:
  "map (blank_line e) (map (\<lambda>tc. Generating_script_for (tc_id tc)) cases)
     = map (\<lambda>tc. Generating_script_for (tc_id tc)) cases"
  by simp

lemma task3_blank:
  assumes "makedirs_ok (fs_scripts e)"
  shows "task3 e url ai gf (blank_snapshot e st) =
           (map (blank_event e) (fst (task3 (all_written e) url ai gf st)),
            map_option (blank_snapshot e) (snd (task3 (all_written e) url ai gf st)))"
  using assms
  by (simp add: task3_def Let_def critical_error_def save_scripts_ok blank_saved
      script_loop_eq loop_events_blank)

lemma snapshots_map_blank:
  "snapshots (map (blank_event e) evs) = map (blank_snapshot e) (snapshots evs)"
  by (induction evs rule: snapshots.induct) simp_all

lemma process_website_blank:
  assumes "makedirs_ok (fs_elements e)" and "makedirs_ok (fs_test_cases e)"
    and "makedirs_ok (fs_scripts e)"
  shows "process_website e url n = map (blank_event e) (process_website (all_written e) url n)"
proof -
  have t1: "task1 e url initial_state =
      (map (blank_event e) (fst (task1 (all_written e) url initial_state)),
       map_option (\<lambda>(ai, s). (ai, blank_snapshot e s))
         (snd (task1 (all_written e) url initial_state)))"
    using task1_blank [OF assms(1), of url initial_state] by simp
  show ?thesis
    by (simp add: process_website_def t1 task2_blank [OF assms(2)] task3_blank [OF assms(3)]
        split: prod.splits option.splits)
qed

text \<open>
  C9, amended. When no exporter raises, the run is the run in which every write succeeds,
  with the paths of the failed writes replaced by the empty string: the same calls to
  the collaborators in the same order and the same snapshots, task for task. For an
  exporter whose write fails, the path field is in every snapshot either still unset
  (before the exporter is called) or the empty string that the exporter returned.
\<close>

theorem write_failure_does_not_abort:
  assumes "makedirs_ok (fs_elements e)" and "makedirs_ok (fs_test_cases e)"
    and "makedirs_ok (fs_scripts e)"
  shows "process_website e url n = map (blank_event e) (process_website (all_written e) url n)
         \<and> (fs_elements e = Write_raises \<longrightarrow>
              list_all (\<lambda>s. elements_filepath s = None \<or> elements_filepath s = Some [])
                (snapshots (process_website e url n)))
         \<and> (fs_test_cases e = Write_raises \<longrightarrow>
              list_all (\<lambda>s. test_cases_filepath s = None \<or> test_cases_filepath s = Some [])
                (snapshots (process_website e url n)))
         \<and> (fs_scripts e = Write_raises \<longrightarrow>
              list_all (\<lambda>s. scripts_filepath s = None \<or> scripts_filepath s = Some [])
                (snapshots (process_website e url n)))"
proof -
  note run = process_website_blank [OF assms, of url n]
  have a: "list_all (\<lambda>s. elements_filepath s = None \<or> elements_filepath s = Some [])
             (snapshots (process_website e url n))" if "fs_elements e = Write_raises"
    using that
    by (auto simp add: run snapshots_map_blank list_all_iff blank_path_def)
  have b: "list_all (\<lambda>s. test_cases_filepath s = None \<or> test_cases_filepath s = Some [])
             (snapshots (process_website e url n))" if "fs_test_cases e = Write_raises"
    using that
    by (auto simp add: run snapshots_map_blank list_all_iff blank_path_def)
  have c: "list_all (\<lambda>s. scripts_filepath s = None \<or> scripts_filepath s = Some [])
             (snapshots (process_website e url n))" if "fs_scripts e = Write_raises"
    using that
    by (auto simp add: run snapshots_map_blank list_all_iff blank_path_def)
  show ?thesis using run a b c by blast
qed

theorem write_failure_does_not_abort_witness:
  "makedirs_ok (fs_elements unwritable_env) \<and> makedirs_ok (fs_test_cases unwritable_env)
   \<and> makedirs_ok (fs_scripts unwritable_env)
   \<and> fs_elements unwritable_env = Write_raises \<and> fs_test_cases unwritable_env = Write_raises
   \<and> fs_scripts unwritable_env = Write_raises
   \<and> all_written unwritable_env = sample_env
   \<and> process_website unwritable_env ''https://example.com'' 2
       = map (blank_event unwritable_env) (process_website sample_env ''https://example.com'' 2)
   \<and> list_all (\<lambda>s. elements_filepath s = None \<or> elements_filepath s = Some [])
       (snapshots (process_website unwritable_env ''https://example.com'' 2))
   \<and> list_all (\<lambda>s. test_cases_filepath s = None \<or> test_cases_filepath s = Some [])
       (snapshots (process_website unwritable_env ''https://example.com'' 2))
   \<and> list_all (\<lambda>s. scripts_filepath s = None \<or> scripts_filepath s = Some [])
       (snapshots (process_website unwritable_env ''https://example.com'' 2))"
proof -
  have m: "makedirs_ok (fs_elements unwritable_env)" "makedirs_ok (fs_test_cases unwritable_env)"
    "makedirs_ok (fs_scripts unwritable_env)"
    by (simp_all add: unwritable_env_def)
  have f: "fs_elements unwritable_env = Write_raises" "fs_test_cases unwritable_env = Write_raises"
    "fs_scripts unwritable_env = Write_raises"
    by (simp_all add: unwritable_env_def)
  have w: "all_written unwritable_env = sample_env"
    by (simp add: all_written_def unwritable_env_def sample_env_def)
  note t = write_failure_does_not_abort [OF m, of "''https://example.com''" 2, unfolded w]
  show ?thesis
    using t m f w by blast
qed

text \<open>
  C9 as stated fails in two ways. The write of the elements file fails: the exporter
  returns the empty string and the path field, unset in the second snapshot, holds the
  empty string from the third snapshot to the last. The output directory cannot be
  created for the test cases: \<^verbatim>\<open>os.makedirs\<close> raises outside the \<^verbatim>\<open>try\<close> of the
  exporter, the handler of line 405 logs the critical error and the run ends there,
  although the table holds two valid test cases: task 3 never starts.
\<close>

theorem persist_failure_counterexample:
  "save_elements_to_json (fs_elements failing_env) sample_elements ''elements_example.json''
     = Inr []
   \<and> elements_filepath (snapshots (process_website failing_env ''https://example.com'' 2) ! 1)
       = None
   \<and> elements_filepath (snapshots (process_website failing_env ''https://example.com'' 2) ! 2)
       = Some []
   \<and> elements_filepath (last (snapshots (process_website failing_env ''https://example.com'' 2)))
       = Some []
   \<and> save_test_cases_to_excel (fs_test_cases failing_env)
        (generate_test_cases failing_env (Json_dumps sample_elements 2) ''https://example.com'' 2)
        ''test_cases_example.xlsx''
       = Inl ''Permission denied''
   \<and> valid_rows (generate_test_cases failing_env (Json_dumps sample_elements 2)
        ''https://example.com'' 2)
       = [row_of_dict (sample_case ''TC001''), row_of_dict (sample_case ''TC002'')]
   \<and> last (status_updates
        (last (snapshots (process_website failing_env ''https://example.com'' 2))))
       = Critical_error ''Permission denied''
   \<and> script_calls (process_website failing_env ''https://example.com'' 2) = []
   \<and> Generating_scripts
        \<notin> set (status_updates
              (last (snapshots (process_website failing_env ''https://example.com'' 2))))"
  by (simp add: process_website_def url_accepted_def task1_def task2_def task3_def
    after_failed_generation_def failing_env_def sample_env_def Let_def save_elements_to_json_def
    save_test_cases_to_excel_def save_scripts_to_excel_def generate_test_cases_def
    parse_ai_test_cases_def sample_loads_def sample_case_def required_keys_def has_key_def
    data_frame_def row_of_dict_def is_error_id_def is_parse_error_id_def sample_elements_def
    max_elements_for_ai_def status_append_def initial_state_def generate_selenium_script_def
    critical_error_def suffix_to_prefix valid_rows_def)

section \<open>Order of the script stage\<close>

lemma scripts_df_progress_state [simp]:
  "scripts_df (progress_state st cases k) = scripts_df st"
  by (simp add: progress_state_def)





end
